theory Spec2Isabelle
  imports Main
begin

section \<open>Requests, responses and headers\<close>

text \<open>
  The fields of \<^verbatim>\<open>http.Request\<close> that registry.go reads: \<^verbatim>\<open>r.Method\<close>,
  \<^verbatim>\<open>r.Host\<close>, \<^verbatim>\<open>r.URL.Path\<close> and \<^verbatim>\<open>r.URL.RawQuery\<close>. Strings are byte
  lists, as Go strings are.
\<close>

record Request =
  Method :: string
  Host :: string
  URL_Path :: string
  URL_RawQuery :: string

text \<open>
  \<^verbatim>\<open>http.Header\<close> is \<^verbatim>\<open>map[string][]string\<close>. \<^verbatim>\<open>Add\<close> appends to the values of
  a key, \<^verbatim>\<open>Set\<close> replaces them. Both canonicalise the key first; every key the program
  uses (Content-Type, Cache-Control, Location) is written in canonical form already.
\<close>

type_synonym http_Header = "string \<rightharpoonup> string list"

definition Header_Add :: "http_Header \<Rightarrow> string \<Rightarrow> string \<Rightarrow> http_Header" where
  "Header_Add h key v = h(key \<mapsto> (case h key of None \<Rightarrow> [] | Some vs \<Rightarrow> vs) @ [v])"

definition Header_Set :: "http_Header \<Rightarrow> string \<Rightarrow> string \<Rightarrow> http_Header" where
  "Header_Set h key v = h(key \<mapsto> [v])"

record Response =
  StatusCode :: int
  Header :: http_Header
  Body :: string

definition StatusOK :: int where
  "StatusOK = 200"

definition StatusPermanentRedirect :: int where
  "StatusPermanentRedirect = 308"

definition StatusNotFound :: int where
  "StatusNotFound = 404"

definition StatusInternalServerError :: int where
  "StatusInternalServerError = 500"

definition MethodGet :: string where
  "MethodGet = ''GET''"

text \<open>
  \<^verbatim>\<open>goproxy.NewResponse(r, contentType, status, body)\<close>: a response with the one header
  Content-Type, the status code and the body. (It also records the request it answers,
  which no handler reads back.)
\<close>

definition NewResponse :: "string \<Rightarrow> int \<Rightarrow> string \<Rightarrow> Response" where
  "NewResponse contentType status body =
     \<lparr>StatusCode = status,
      Header = Header_Add Map.empty ''Content-Type'' contentType,
      Body = body\<rparr>"

section \<open>Strings\<close>

text \<open>\<^verbatim>\<open>strings.HasPrefix(s, prefix)\<close>.\<close>

definition HasPrefix :: "string \<Rightarrow> string \<Rightarrow> bool" where
  "HasPrefix s pre = (length pre \<le> length s \<and> take (length pre) s = pre)"

text \<open>
  \<^verbatim>\<open>strings.Split(s, sep)\<close> for a separator of one byte, the only kind the program
  passes: find the first separator, cut the piece before it, go on with what follows it;
  without a separator the rest is the last piece.
\<close>

function Split :: "string \<Rightarrow> char \<Rightarrow> string list" where
  "Split s sep =
     (case dropWhile (\<lambda>c. c \<noteq> sep) s of
        [] \<Rightarrow> [s]
      | _ # rest \<Rightarrow> takeWhile (\<lambda>c. c \<noteq> sep) s # Split rest sep)"
  by pat_completeness auto
termination
proof (relation "measure (\<lambda>(s, sep). length s)")
  show "wf (measure (\<lambda>(s, sep). length s))"
    by simp
next
  fix s :: string and sep :: char and x rest
  assume "dropWhile (\<lambda>c. c \<noteq> sep) s = x # rest"
  then have "Suc (length rest) = length (dropWhile (\<lambda>c. c \<noteq> sep) s)"
    by simp
  also have "\<dots> \<le> length s"
    by (rule length_dropWhile_le)
  finally show "((rest, sep), (s, sep)) \<in> measure (\<lambda>(s, sep). length s)"
    by simp
qed

declare Split.simps [simp del]

section \<open>The collaborators: store, cache, JSON encoder, clock\<close>

text \<open>
  What a handler does to the outside world, in the order it does it: the sleep of the
  throttle (a \<^verbatim>\<open>time.Duration\<close>, in nanoseconds), the read of a cache key, and the
  execution of a prepared statement with its argument.
\<close>

datatype event =
    Sleep int
  | CacheGet string
  | QueryRow string string

definition Second :: int where
  "Second = 1000000000"

text \<open>
  The errors of the three clients. The program tells \<^verbatim>\<open>pgx.ErrNoRows\<close> from every
  other store error and nothing else; the other errors carry the client's message.
\<close>

datatype pgx_error = ErrNoRows | PgxError string

datatype mc_error = ErrNotFound | McError string

datatype json_error = MarshalError string

text \<open>
  The clients are parameters of the model:
  \<^item> \<open>pool_QueryRow env stmt arg\<close> is \<^verbatim>\<open>pool.QueryRow(stmt, arg).Scan(&name, &url)\<close>:
    an error, or the two columns of the row;
  \<^item> \<open>cn_Get env key\<close> is \<^verbatim>\<open>cn.Get(key)\<close>: an error, or the value (cas and flags are
    dropped by the program);
  \<^item> \<open>json_Marshal env kvs\<close> is \<^verbatim>\<open>json.Marshal\<close> of a struct, given as its JSON keys
    and string values in declaration order: an error, or the encoding.
\<close>

record Env =
  pool_QueryRow :: "string \<Rightarrow> string \<Rightarrow> pgx_error + string \<times> string"
  cn_Get :: "string \<Rightarrow> mc_error + string"
  json_Marshal :: "(string \<times> string) list \<Rightarrow> json_error + string"

text \<open>
  \<^verbatim>\<open>type Package struct { Name string `json:"name"`; URL string `json:"url"` }\<close>:
  the struct, and the keys its tags give the encoder.
\<close>

record Package =
  Name :: string
  URL :: string

definition Package_json :: "Package \<Rightarrow> (string \<times> string) list" where
  "Package_json p = [(''name'', Name p), (''url'', URL p)]"

section \<open>Request conditions\<close>

definition urlHasPrefix :: "string \<Rightarrow> Request \<Rightarrow> bool" where
  "urlHasPrefix pre req =
     (let isGET = (Method req = MethodGet);
          hasPrefix = HasPrefix (URL_Path req) pre;
          isSearch = HasPrefix (URL_Path req) ''/packages/search/''
      in isGET \<and> hasPrefix \<and> \<not> isSearch)"

definition pathIs :: "string \<Rightarrow> Request \<Rightarrow> bool" where
  "pathIs path req = (Method req = MethodGet \<and> URL_Path req = path)"

section \<open>Handlers\<close>

text \<open>
  A handler returns the request unchanged and a response or \<^verbatim>\<open>nil\<close>. The model
  returns the events of the call and the response as an option; a run-time panic is the
  left injection.
\<close>

datatype go_panic = IndexOutOfRange

type_synonym outcome = "event list \<times> Response option"

type_synonym handler = "Request \<Rightarrow> go_panic + outcome"

text \<open>
  The body of the deprecation answer, line 108, and the message that is the value of its
  url field.
\<close>

definition deprecationMessage :: string where
  "deprecationMessage =
     ''This bower version is deprecated. Please update it: npm update -g bower''"

definition deprecationBody :: string where
  \<open>deprecationBody =
     ''[{"name":"deprecated","url":"This bower version is deprecated. Please update it: npm update -g bower"}]''\<close>

text \<open>The function literal registered first in \<^verbatim>\<open>main\<close>, lines 104 to 122.\<close>

definition redirectHandler :: handler where
  "redirectHandler r =
     (if Method r = ''GET'' \<and> Host r \<noteq> ''registry.bower.io''
         \<and> Host r \<noteq> ''components.bower.io''
      then
        if HasPrefix (URL_Path r) ''/packages/search/''
        then Inr ([], Some (NewResponse ''application/json'' StatusOK deprecationBody))
        else
          let response = NewResponse ''application/json'' StatusPermanentRedirect '''';
              target = ''https://registry.bower.io'' @ URL_Path r;
              target = (if length (URL_RawQuery r) > 0
                        then target @ ''?'' @ URL_RawQuery r else target)
          in Inr ([Sleep (10 * Second)],
                  Some (response\<lparr>Header := Header_Set (Header response) ''Location'' target\<rparr>))
      else Inr ([], None))"

definition getPackage :: "Env \<Rightarrow> handler" where
  "getPackage env r =
     (let elements = Split (URL_Path r) CHR ''/'' in
      if length elements = 0 then Inl IndexOutOfRange
      else
        let packageName = elements ! (length elements - 1);
            query = [QueryRow ''getPackage'' packageName]
        in case pool_QueryRow env ''getPackage'' packageName of
             Inl err \<Rightarrow>
               if err = ErrNoRows
               then Inr (query, Some (NewResponse ''text/html'' StatusNotFound
                                         ''Package not found''))
               else Inr (query, Some (NewResponse ''text/html'' StatusInternalServerError
                                         ''Internal server error''))
           | Inr (name, url) \<Rightarrow>
               (case json_Marshal env (Package_json \<lparr>Name = name, URL = url\<rparr>) of
                  Inl err \<Rightarrow>
                    Inr (query, Some (NewResponse ''text/html'' StatusInternalServerError
                                         ''Internal server error''))
                | Inr data \<Rightarrow>
                    let response = NewResponse ''application/json'' StatusOK data
                    in Inr (query,
                            Some (response\<lparr>Header := Header_Add (Header response)
                                     ''Cache-Control'' ''public, max-age=604800''\<rparr>))))"

definition listPackages :: "Env \<Rightarrow> handler" where
  "listPackages env r =
     (case cn_Get env ''packages'' of
        Inl err \<Rightarrow> Inr ([CacheGet ''packages''], None)
      | Inr val \<Rightarrow>
          let response = NewResponse ''application/json'' StatusOK val
          in Inr ([CacheGet ''packages''],
                  Some (response\<lparr>Header := Header_Add (Header response)
                           ''Cache-Control'' ''public, max-age=604800''\<rparr>)))"

section \<open>Dispatch\<close>

text \<open>
  Modelled from the spec: the registration of a handler in the proxy library (goproxy),
  which the program imports and whose code is not in the repository. \<open>DoFunc conds f\<close>
  is \<^verbatim>\<open>proxy.OnRequest(conds...).DoFunc(f)\<close>: the registered handler calls \<open>f\<close> when
  every condition holds and gives no response otherwise.
\<close>

definition DoFunc :: "(Request \<Rightarrow> bool) list \<Rightarrow> handler \<Rightarrow> handler" where
  "DoFunc conds f r = (if list_all (\<lambda>cond. cond r) conds then f r else Inr ([], None))"

text \<open>
  Modelled from the spec: the loop of the same library over the registered handlers.
  They run in registration order, and the first response ends the loop; a handler that
  gives none lets the next one run. When no handler gives a response the result is
  \<open>None\<close>, and the proxy forwards the request to the local delegate. A panic of a handler
  ends the run.
\<close>

fun filterRequest :: "handler list \<Rightarrow> handler" where
  "filterRequest [] r = Inr ([], None)"
| "filterRequest (h # hs) r =
     (case h r of
        Inl p \<Rightarrow> Inl p
      | Inr (evs, Some resp) \<Rightarrow> Inr (evs, Some resp)
      | Inr (evs, None) \<Rightarrow>
          (case filterRequest hs r of
             Inl p \<Rightarrow> Inl p
           | Inr (evs', res) \<Rightarrow> Inr (evs @ evs', res)))"

text \<open>The three registrations of \<^verbatim>\<open>main\<close>, lines 103 to 125, in their order.\<close>

definition reqHandlers :: "Env \<Rightarrow> handler list" where
  "reqHandlers env =
     [DoFunc [] redirectHandler,
      DoFunc [pathIs ''/packages''] (listPackages env),
      DoFunc [urlHasPrefix ''/packages/''] (getPackage env)]"

text \<open>What the proxy does with a request: the events, and the response or the delegation.\<close>

definition serve :: "Env \<Rightarrow> handler" where
  "serve env = filterRequest (reqHandlers env)"

text \<open>
  The dispatch in the words of the spec (section 4.2), for comparison: rules are pairs
  of a predicate and a handler, tried in order; the handler of the first rule whose
  predicate holds gives the result, and no later rule is tried. The predicate of the
  redirect rule is the spec's \<open>isMigratableTraffic\<close>, the test that the function literal
  makes itself. \<open>serve_eq_spec_dispatch\<close> below shows that on the three rules of the
  program both readings give the same result.
\<close>

definition isMigratableTraffic :: "Request \<Rightarrow> bool" where
  "isMigratableTraffic r =
     (Method r = ''GET'' \<and> Host r \<noteq> ''registry.bower.io''
        \<and> Host r \<noteq> ''components.bower.io'')"

fun spec_dispatch :: "((Request \<Rightarrow> bool) \<times> handler) list \<Rightarrow> handler" where
  "spec_dispatch [] r = Inr ([], None)"
| "spec_dispatch ((p, h) # rules) r = (if p r then h r else spec_dispatch rules r)"

section \<open>An example environment\<close>

text \<open>
  \<open>Join\<close> is \<^verbatim>\<open>strings.Join\<close> with a separator of one byte. The program does not call
  it; it states below that \<open>Split\<close> cuts at every separator and nowhere else, and it
  builds the example encoder.
\<close>

fun Join :: "string list \<Rightarrow> char \<Rightarrow> string" where
  "Join [] sep = []"
| "Join [e] sep = e"
| "Join (e # es) sep = e @ sep # Join es sep"

text \<open>
  The examples run against a store with one row, a cache that holds the list, and an
  encoder that writes keys and values between double quotes as they are, which is what
  \<^verbatim>\<open>json.Marshal\<close> returns when no byte of them needs an escape.
\<close>

definition quoted :: "string \<Rightarrow> string" where
  \<open>quoted s = ''"'' @ s @ ''"''\<close>

definition plainMarshal :: "(string \<times> string) list \<Rightarrow> json_error + string" where
  "plainMarshal kvs =
     Inr (''{'' @ Join (map (\<lambda>(k, v). quoted k @ '':'' @ quoted v) kvs) CHR '','' @ ''}'')"

definition exampleEnv :: Env where
  \<open>exampleEnv =
     \<lparr>pool_QueryRow = (\<lambda>stmt arg.
        if stmt = ''getPackage'' \<and> arg = ''jquery''
        then Inr (''jquery'', ''git://github.com/jquery/jquery.git'')
        else Inl ErrNoRows),
      cn_Get = (\<lambda>key.
        if key = ''packages''
        then Inr ''[{"name":"jquery","url":"git://github.com/jquery/jquery.git"}]''
        else Inl ErrNotFound),
      json_Marshal = plainMarshal\<rparr>\<close>

section \<open>Splitting a path\<close>

lemma Split_not_Nil: "Split s sep \<noteq> []"
  by (subst Split.simps) (simp split: list.split)

lemma Split_no_sep: "dropWhile (\<lambda>c. c \<noteq> sep) s = [] \<Longrightarrow> Split s sep = [s]"
  by (subst Split.simps) (simp only: list.case)

lemma Split_at_sep:
  "dropWhile (\<lambda>c. c \<noteq> sep) s = x # rest \<Longrightarrow>
   Split s sep = takeWhile (\<lambda>c. c \<noteq> sep) s # Split rest sep"
  by (subst Split.simps) (simp only: list.case)

lemma dropWhile_sep_decomp:
  assumes "dropWhile (\<lambda>c. c \<noteq> sep) s = x # rest"
  shows "s = takeWhile (\<lambda>c. c \<noteq> sep) s @ sep # rest"
proof -
  have "x = sep"
    using assms hd_dropWhile [of "\<lambda>c. c \<noteq> sep" s] by fastforce
  then show ?thesis
    using takeWhile_dropWhile_id [of "\<lambda>c. c \<noteq> sep" s] assms by simp
qed

text \<open>The pieces, joined by the separator, are the string; no piece holds a separator.\<close>

lemma Join_Split: "Join (Split s sep) sep = s"
proof (induction s sep rule: Split.induct)
  case (1 s sep)
  show ?case
  proof (cases "dropWhile (\<lambda>c. c \<noteq> sep) s")
    case Nil
    then show ?thesis by (simp add: Split_no_sep)
  next
    case (Cons x rest)
    obtain e es where ees: "Split rest sep = e # es"
      using Split_not_Nil [of rest sep] by (cases "Split rest sep") auto
    have "Join (Split rest sep) sep = rest"
      using "1.IH" Cons by simp
    then show ?thesis
      using dropWhile_sep_decomp [OF Cons] by (simp add: Split_at_sep [OF Cons] ees)
  qed
qed

lemma Split_pieces: "e \<in> set (Split s sep) \<Longrightarrow> sep \<notin> set e"
proof (induction s sep arbitrary: e rule: Split.induct)
  case (1 s sep)
  show ?case
  proof (cases "dropWhile (\<lambda>c. c \<noteq> sep) s")
    case Nil
    then have "\<forall>c\<in>set s. c \<noteq> sep"
      by (simp add: dropWhile_eq_Nil_conv)
    then show ?thesis
      using "1.prems" by (auto simp: Split_no_sep [OF Nil])
  next
    case (Cons x rest)
    have "sep \<notin> set (takeWhile (\<lambda>c. c \<noteq> sep) s)"
      by (auto dest: set_takeWhileD)
    then show ?thesis
      using "1.prems" "1.IH" [OF Cons] by (auto simp: Split_at_sep [OF Cons])
  qed
qed

text \<open>The last piece is what follows the last separator (the whole string without one).\<close>

lemma Split_last: "last (Split s sep) = rev (takeWhile (\<lambda>c. c \<noteq> sep) (rev s))"
proof (induction s sep rule: Split.induct)
  case (1 s sep)
  show ?case
  proof (cases "dropWhile (\<lambda>c. c \<noteq> sep) s")
    case Nil
    then have "\<forall>c\<in>set s. c \<noteq> sep"
      by (simp add: dropWhile_eq_Nil_conv)
    then have tw: "takeWhile (\<lambda>c. c \<noteq> sep) (rev s) = rev s"
      by (simp add: takeWhile_eq_all_conv)
    show ?thesis
      unfolding Split_no_sep [OF Nil] tw by simp
  next
    case (Cons x rest)
    obtain t where s: "s = t @ sep # rest"
      using dropWhile_sep_decomp [OF Cons] ..
    have "last (Split s sep) = last (Split rest sep)"
      by (simp add: Split_at_sep [OF Cons] Split_not_Nil)
    also have "\<dots> = rev (takeWhile (\<lambda>c. c \<noteq> sep) (rev rest))"
      using "1.IH" Cons by simp
    also have "\<dots> = rev (takeWhile (\<lambda>c. c \<noteq> sep) (rev s))"
      by (simp add: s takeWhile_append)
    finally show ?thesis .
  qed
qed

lemma Split_last_index:
  "Split s sep ! (length (Split s sep) - 1) = last (Split s sep)"
  by (simp add: last_conv_nth Split_not_Nil)

section \<open>Responses and dispatch\<close>

lemmas status_defs = StatusOK_def StatusPermanentRedirect_def StatusNotFound_def
  StatusInternalServerError_def

lemma NewResponse_record:
  "NewResponse contentType status body =
     \<lparr>StatusCode = status, Header = [''Content-Type'' \<mapsto> [contentType]], Body = body\<rparr>"
  by (simp add: NewResponse_def Header_Add_def)

text \<open>The first registered handler has no condition: when it answers, that is the answer.\<close>

lemma serve_redirect_answers:
  "redirectHandler r = Inr (evs, Some resp) \<Longrightarrow> serve env r = Inr (evs, Some resp)"
  by (simp add: serve_def reqHandlers_def DoFunc_def)

lemma pathIs_not_urlHasPrefix: "pathIs ''/packages'' r \<Longrightarrow> \<not> urlHasPrefix ''/packages/'' r"
  by (simp add: pathIs_def urlHasPrefix_def HasPrefix_def)

lemma listPackages_cases:
  "listPackages env r = Inr ([CacheGet ''packages''], None) \<or>
   (\<exists>resp. listPackages env r = Inr ([CacheGet ''packages''], Some resp))"
  by (simp add: listPackages_def Let_def split: sum.split)

text \<open>
  When the first handler declines, the list rule and the lookup rule are left; their
  conditions exclude each other, so at most one of the two handlers runs.
\<close>

lemma serve_redirect_declines:
  assumes "redirectHandler r = Inr ([], None)"
  shows "serve env r =
     (if pathIs ''/packages'' r then listPackages env r
      else if urlHasPrefix ''/packages/'' r then getPackage env r
      else Inr ([], None))"
proof (cases "pathIs ''/packages'' r")
  case True
  then have "\<not> urlHasPrefix ''/packages/'' r"
    by (rule pathIs_not_urlHasPrefix)
  with True assms listPackages_cases [of env r] show ?thesis
    by (auto simp: serve_def reqHandlers_def DoFunc_def)
next
  case False
  with assms show ?thesis
    by (auto simp: serve_def reqHandlers_def DoFunc_def split: sum.split option.split)
qed

lemma redirectHandler_migrated:
  "Host r = ''registry.bower.io'' \<or> Host r = ''components.bower.io'' \<Longrightarrow>
   redirectHandler r = Inr ([], None)"
  by (auto simp: redirectHandler_def)

lemma redirectHandler_308:
  assumes "Method r = ''GET''" "Host r \<noteq> ''registry.bower.io''"
    "Host r \<noteq> ''components.bower.io''" "\<not> HasPrefix (URL_Path r) ''/packages/search/''"
  shows "redirectHandler r =
    Inr ([Sleep (10 * Second)],
         Some \<lparr>StatusCode = 308,
               Header = [''Content-Type'' \<mapsto> [''application/json''],
                         ''Location'' \<mapsto> [''https://registry.bower.io'' @ URL_Path r @
                            (if URL_RawQuery r = [] then [] else ''?'' @ URL_RawQuery r)]],
               Body = []\<rparr>)"
  using assms
  by (simp add: redirectHandler_def NewResponse_record Header_Set_def status_defs Let_def)

lemma redirectHandler_search:
  assumes "Method r = ''GET''" "Host r \<noteq> ''registry.bower.io''"
    "Host r \<noteq> ''components.bower.io''" "HasPrefix (URL_Path r) ''/packages/search/''"
  shows "redirectHandler r =
    Inr ([], Some \<lparr>StatusCode = 200,
                    Header = [''Content-Type'' \<mapsto> [''application/json'']],
                    Body = deprecationBody\<rparr>)"
  using assms
  by (simp add: redirectHandler_def NewResponse_record status_defs)

lemma redirectHandler_answers:
  "isMigratableTraffic r \<Longrightarrow> \<exists>evs resp. redirectHandler r = Inr (evs, Some resp)"
  by (simp add: redirectHandler_def isMigratableTraffic_def Let_def)

lemma redirectHandler_declines:
  "\<not> isMigratableTraffic r \<Longrightarrow> redirectHandler r = Inr ([], None)"
  by (auto simp: redirectHandler_def isMigratableTraffic_def)

lemma serve_eq_spec_dispatch:
  "serve env r =
     spec_dispatch
       [(isMigratableTraffic, redirectHandler),
        (pathIs ''/packages'', listPackages env),
        (urlHasPrefix ''/packages/'', getPackage env)] r"
proof (cases "isMigratableTraffic r")
  case True
  then obtain evs resp where "redirectHandler r = Inr (evs, Some resp)"
    using redirectHandler_answers by blast
  then show ?thesis
    using True by (simp add: serve_redirect_answers)
next
  case False
  then show ?thesis
    by (simp add: serve_redirect_declines redirectHandler_declines)
qed

section \<open>The lookup handler\<close>

text \<open>
  \<open>Split\<close> never returns an empty list, so the index is in range and the handler does
  not panic: it queries the store for the last piece and always answers.
\<close>

lemma getPackage_eq:
  "getPackage env r =
     (let packageName = last (Split (URL_Path r) CHR ''/'');
          query = [QueryRow ''getPackage'' packageName]
      in case pool_QueryRow env ''getPackage'' packageName of
           Inl err \<Rightarrow>
             if err = ErrNoRows
             then Inr (query, Some \<lparr>StatusCode = 404,
                                    Header = [''Content-Type'' \<mapsto> [''text/html'']],
                                    Body = ''Package not found''\<rparr>)
             else Inr (query, Some \<lparr>StatusCode = 500,
                                    Header = [''Content-Type'' \<mapsto> [''text/html'']],
                                    Body = ''Internal server error''\<rparr>)
         | Inr (name, url) \<Rightarrow>
             (case json_Marshal env [(''name'', name), (''url'', url)] of
                Inl err \<Rightarrow>
                  Inr (query, Some \<lparr>StatusCode = 500,
                                    Header = [''Content-Type'' \<mapsto> [''text/html'']],
                                    Body = ''Internal server error''\<rparr>)
              | Inr data \<Rightarrow>
                  Inr (query, Some \<lparr>StatusCode = 200,
                                    Header = [''Content-Type'' \<mapsto> [''application/json''],
                                              ''Cache-Control'' \<mapsto> [''public, max-age=604800'']],
                                    Body = data\<rparr>)))"
  unfolding getPackage_def Let_def Split_last_index
  by (simp add: Split_not_Nil NewResponse_record Header_Add_def status_defs Package_json_def
      split: sum.split prod.split)

lemma getPackage_responds:
  "\<exists>resp. getPackage env r =
     Inr ([QueryRow ''getPackage'' (last (Split (URL_Path r) CHR ''/''))], Some resp)"
  by (simp add: getPackage_eq Let_def split: sum.split prod.split)

lemma Split_last_trailing_sep:
  assumes "s \<noteq> []" and "last s = sep"
  shows "last (Split s sep) = []"
proof -
  obtain t where "s = t @ [sep]"
    using assms by (cases s rule: rev_cases) auto
  then show ?thesis
    by (simp add: Split_last)
qed

lemma Split_example_jquery: "Split ''/packages/jquery'' CHR ''/'' = [[], ''packages'', ''jquery'']"
  by (simp add: Split.simps)

lemma Split_example_missing:
  "Split ''/packages/missing'' CHR ''/'' = [[], ''packages'', ''missing'']"
  by (simp add: Split.simps)

lemma Split_example_foo: "Split ''/packages/foo/'' CHR ''/'' = [[], ''packages'', ''foo'', []]"
  by (simp add: Split.simps)

section \<open>The redirect rule\<close>

text \<open>
  C1, as stated, fails on a search path: /packages/search/jquery has the prefix
  /packages/ of the lookup rule, and a GET request for it on a host that is not migrated
  is answered by the redirect handler with the deprecation notice, status 200 and no
  sleep, not with the 308.
\<close>

theorem redirect_rule_first_counterexample:
  "Method \<lparr>Method = ''GET'', Host = ''bower.herokuapp.com'',
       URL_Path = ''/packages/search/jquery'', URL_RawQuery = []\<rparr> = ''GET''
   \<and> Host \<lparr>Method = ''GET'', Host = ''bower.herokuapp.com'',
       URL_Path = ''/packages/search/jquery'', URL_RawQuery = []\<rparr> \<noteq> ''registry.bower.io''
   \<and> Host \<lparr>Method = ''GET'', Host = ''bower.herokuapp.com'',
       URL_Path = ''/packages/search/jquery'', URL_RawQuery = []\<rparr> \<noteq> ''components.bower.io''
   \<and> HasPrefix ''/packages/search/jquery'' ''/packages/''
   \<and> serve exampleEnv
       \<lparr>Method = ''GET'', Host = ''bower.herokuapp.com'',
        URL_Path = ''/packages/search/jquery'', URL_RawQuery = []\<rparr> =
      Inr ([], Some \<lparr>StatusCode = 200,
                      Header = [''Content-Type'' \<mapsto> [''application/json'']],
                      Body = deprecationBody\<rparr>)
   \<and> serve exampleEnv
       \<lparr>Method = ''GET'', Host = ''bower.herokuapp.com'',
        URL_Path = ''/packages/search/jquery'', URL_RawQuery = []\<rparr> \<noteq>
      Inr ([Sleep (10 * Second)],
           Some \<lparr>StatusCode = 308,
                 Header = [''Content-Type'' \<mapsto> [''application/json''],
                           ''Location'' \<mapsto> [''https://registry.bower.io/packages/search/jquery'']],
                 Body = []\<rparr>)"
proof -
  let ?r = "\<lparr>Method = ''GET'', Host = ''bower.herokuapp.com'',
       URL_Path = ''/packages/search/jquery'', URL_RawQuery = []\<rparr>"
  have "redirectHandler ?r =
      Inr ([], Some \<lparr>StatusCode = 200,
                      Header = [''Content-Type'' \<mapsto> [''application/json'']],
                      Body = deprecationBody\<rparr>)"
    by (rule redirectHandler_search) (simp_all add: HasPrefix_def)
  then have "serve exampleEnv ?r =
      Inr ([], Some \<lparr>StatusCode = 200,
                      Header = [''Content-Type'' \<mapsto> [''application/json'']],
                      Body = deprecationBody\<rparr>)"
    by (rule serve_redirect_answers)
  then show ?thesis
    by (simp add: HasPrefix_def)
qed

text \<open>
  C1, amended. The redirect rule is registered first and wins: a GET request on a host
  that is neither of the two migrated hosts, whose path is the list path /packages or
  matches the lookup rule (the prefix /packages/, outside /packages/search/), is
  answered by the redirect handler with status 308 after the sleep of ten seconds. The
  events hold no cache read and no store query, and the answer is neither the list
  handler's nor the lookup handler's.
\<close>

theorem redirect_rule_first:
  assumes "Method r = ''GET''"
    and "Host r \<noteq> ''registry.bower.io''" and "Host r \<noteq> ''components.bower.io''"
    and "pathIs ''/packages'' r \<or> urlHasPrefix ''/packages/'' r"
  shows "serve env r =
    Inr ([Sleep (10 * Second)],
         Some \<lparr>StatusCode = 308,
               Header = [''Content-Type'' \<mapsto> [''application/json''],
                         ''Location'' \<mapsto> [''https://registry.bower.io'' @ URL_Path r @
                            (if URL_RawQuery r = [] then [] else ''?'' @ URL_RawQuery r)]],
               Body = []\<rparr>)
    \<and> serve env r \<noteq> listPackages env r \<and> serve env r \<noteq> getPackage env r"
proof -
  have ns: "\<not> HasPrefix (URL_Path r) ''/packages/search/''"
    using assms(4) by (auto simp: pathIs_def urlHasPrefix_def HasPrefix_def)
  have red: "redirectHandler r = Inr ([Sleep (10 * Second)],
      Some \<lparr>StatusCode = 308,
               Header = [''Content-Type'' \<mapsto> [''application/json''],
                         ''Location'' \<mapsto> [''https://registry.bower.io'' @ URL_Path r @
                            (if URL_RawQuery r = [] then [] else ''?'' @ URL_RawQuery r)]],
               Body = []\<rparr>)"
    using assms(1-3) ns by (rule redirectHandler_308)
  have s: "serve env r = redirectHandler r"
    unfolding red by (rule serve_redirect_answers [OF red])
  have "redirectHandler r \<noteq> listPackages env r"
    unfolding red using listPackages_cases [of env r] by auto
  moreover have "redirectHandler r \<noteq> getPackage env r"
    unfolding red by (auto simp: getPackage_def Let_def split: sum.split)
  ultimately show ?thesis
    unfolding s using red by simp
qed

theorem redirect_rule_first_witness:
  "pathIs ''/packages''
     \<lparr>Method = ''GET'', Host = ''bower.herokuapp.com'', URL_Path = ''/packages'',
      URL_RawQuery = []\<rparr>
   \<and> serve exampleEnv
     \<lparr>Method = ''GET'', Host = ''bower.herokuapp.com'', URL_Path = ''/packages'',
      URL_RawQuery = []\<rparr> =
    Inr ([Sleep 10000000000],
         Some \<lparr>StatusCode = 308,
               Header = [''Content-Type'' \<mapsto> [''application/json''],
                         ''Location'' \<mapsto> [''https://registry.bower.io/packages'']],
               Body = []\<rparr>)
   \<and> urlHasPrefix ''/packages/''
     \<lparr>Method = ''GET'', Host = ''bower.herokuapp.com'', URL_Path = ''/packages/jquery'',
      URL_RawQuery = ''v=1''\<rparr>
   \<and> serve exampleEnv
     \<lparr>Method = ''GET'', Host = ''bower.herokuapp.com'', URL_Path = ''/packages/jquery'',
      URL_RawQuery = ''v=1''\<rparr> =
    Inr ([Sleep 10000000000],
         Some \<lparr>StatusCode = 308,
               Header = [''Content-Type'' \<mapsto> [''application/json''],
                         ''Location'' \<mapsto> [''https://registry.bower.io/packages/jquery?v=1'']],
               Body = []\<rparr>)"
  using redirect_rule_first [of "\<lparr>Method = ''GET'', Host = ''bower.herokuapp.com'',
      URL_Path = ''/packages'', URL_RawQuery = []\<rparr>" exampleEnv]
    redirect_rule_first [of "\<lparr>Method = ''GET'', Host = ''bower.herokuapp.com'',
      URL_Path = ''/packages/jquery'', URL_RawQuery = ''v=1''\<rparr>" exampleEnv]
  by (simp add: pathIs_def urlHasPrefix_def HasPrefix_def MethodGet_def Second_def)

text \<open>
  C2. On the hosts registry.bower.io and components.bower.io the redirect handler gives
  no response and does nothing, whatever the method, the path and the query are; the
  request goes to the list handler, to the lookup handler, or is delegated.
\<close>

theorem migrated_host_not_redirected:
  assumes "Host r = ''registry.bower.io'' \<or> Host r = ''components.bower.io''"
  shows "redirectHandler r = Inr ([], None)
    \<and> serve env r =
       (if pathIs ''/packages'' r then listPackages env r
        else if urlHasPrefix ''/packages/'' r then getPackage env r
        else Inr ([], None))"
  using redirectHandler_migrated [OF assms] serve_redirect_declines [of r env] by simp

theorem migrated_host_not_redirected_witness:
  "redirectHandler \<lparr>Method = ''GET'', Host = ''registry.bower.io'',
      URL_Path = ''/anything'', URL_RawQuery = ''q=1''\<rparr> = Inr ([], None)
   \<and> serve exampleEnv \<lparr>Method = ''GET'', Host = ''registry.bower.io'',
      URL_Path = ''/anything'', URL_RawQuery = ''q=1''\<rparr> = Inr ([], None)
   \<and> redirectHandler \<lparr>Method = ''POST'', Host = ''components.bower.io'',
      URL_Path = ''/packages'', URL_RawQuery = []\<rparr> = Inr ([], None)
   \<and> serve exampleEnv \<lparr>Method = ''POST'', Host = ''components.bower.io'',
      URL_Path = ''/packages'', URL_RawQuery = []\<rparr> = Inr ([], None)"
  using migrated_host_not_redirected [of "\<lparr>Method = ''GET'', Host = ''registry.bower.io'',
      URL_Path = ''/anything'', URL_RawQuery = ''q=1''\<rparr>" exampleEnv]
    migrated_host_not_redirected [of "\<lparr>Method = ''POST'', Host = ''components.bower.io'',
      URL_Path = ''/packages'', URL_RawQuery = []\<rparr>" exampleEnv]
  by (simp add: pathIs_def urlHasPrefix_def HasPrefix_def MethodGet_def)

text \<open>
  C3. A GET request on a host that is not migrated, with a path that starts with
  /packages/search/, is answered at once (no sleep among the events) with status 200 and
  a body that is a JSON array of one object: the name is "deprecated", the url is the
  deprecation message, which is not empty and needs no escape.
\<close>

theorem search_deprecation_notice:
  assumes "Method r = ''GET''"
    and "Host r \<noteq> ''registry.bower.io''" and "Host r \<noteq> ''components.bower.io''"
    and "HasPrefix (URL_Path r) ''/packages/search/''"
  shows \<open>serve env r =
      Inr ([], Some \<lparr>StatusCode = 200,
                      Header = [''Content-Type'' \<mapsto> [''application/json'']],
                      Body = deprecationBody\<rparr>)
    \<and> redirectHandler r = serve env r
    \<and> deprecationBody = ''[{"name":"deprecated","url":"'' @ deprecationMessage @ ''"}]''
    \<and> deprecationMessage \<noteq> []
    \<and> CHR ''"'' \<notin> set deprecationMessage \<and> CHR 0x5C \<notin> set deprecationMessage\<close>
proof -
  have red: "redirectHandler r =
      Inr ([], Some \<lparr>StatusCode = 200,
                      Header = [''Content-Type'' \<mapsto> [''application/json'']],
                      Body = deprecationBody\<rparr>)"
    using assms by (rule redirectHandler_search)
  have "serve env r = redirectHandler r"
    unfolding red by (rule serve_redirect_answers [OF red])
  then show ?thesis
    using red by (simp add: deprecationBody_def deprecationMessage_def)
qed

theorem search_deprecation_notice_witness:
  \<open>HasPrefix ''/packages/search/jquery'' ''/packages/search/''
   \<and> serve exampleEnv \<lparr>Method = ''GET'', Host = ''bower.herokuapp.com'',
        URL_Path = ''/packages/search/jquery'', URL_RawQuery = []\<rparr> =
      Inr ([], Some \<lparr>StatusCode = 200,
                      Header = [''Content-Type'' \<mapsto> [''application/json'']],
                      Body = ''[{"name":"deprecated","url":"This bower version is deprecated. Please update it: npm update -g bower"}]''\<rparr>)\<close>
  using search_deprecation_notice [of "\<lparr>Method = ''GET'', Host = ''bower.herokuapp.com'',
        URL_Path = ''/packages/search/jquery'', URL_RawQuery = []\<rparr>" exampleEnv]
  by (simp add: HasPrefix_def deprecationBody_def)

text \<open>
  C4. A GET request on a host that is not migrated, with a path that does not start with
  /packages/search/, makes the handler sleep ten seconds (a duration in nanoseconds) and
  then answer with status 308 and the Location https://registry.bower.io followed by the
  path, and by "?" and the query exactly when the query is not empty.
\<close>

theorem redirect_after_ten_seconds:
  assumes "Method r = ''GET''"
    and "Host r \<noteq> ''registry.bower.io''" and "Host r \<noteq> ''components.bower.io''"
    and "\<not> HasPrefix (URL_Path r) ''/packages/search/''"
  shows "redirectHandler r =
    Inr ([Sleep (10 * Second)],
         Some \<lparr>StatusCode = 308,
               Header = [''Content-Type'' \<mapsto> [''application/json''],
                         ''Location'' \<mapsto> [''https://registry.bower.io'' @ URL_Path r @
                            (if URL_RawQuery r = [] then [] else ''?'' @ URL_RawQuery r)]],
               Body = []\<rparr>)
    \<and> serve env r = redirectHandler r
    \<and> 10 * Second = 10 * 1000 * 1000 * 1000"
proof -
  have red: "redirectHandler r = Inr ([Sleep (10 * Second)],
      Some \<lparr>StatusCode = 308,
               Header = [''Content-Type'' \<mapsto> [''application/json''],
                         ''Location'' \<mapsto> [''https://registry.bower.io'' @ URL_Path r @
                            (if URL_RawQuery r = [] then [] else ''?'' @ URL_RawQuery r)]],
               Body = []\<rparr>)"
    using assms by (rule redirectHandler_308)
  have "serve env r = redirectHandler r"
    unfolding red by (rule serve_redirect_answers [OF red])
  then show ?thesis
    using red by (simp add: Second_def)
qed

theorem redirect_after_ten_seconds_witness:
  "\<not> HasPrefix ''/stats'' ''/packages/search/''
   \<and> redirectHandler \<lparr>Method = ''GET'', Host = ''bower.herokuapp.com'',
        URL_Path = ''/stats'', URL_RawQuery = ''a=1&b=2''\<rparr> =
      Inr ([Sleep 10000000000],
           Some \<lparr>StatusCode = 308,
                 Header = [''Content-Type'' \<mapsto> [''application/json''],
                           ''Location'' \<mapsto> [''https://registry.bower.io/stats?a=1&b=2'']],
                 Body = []\<rparr>)
   \<and> redirectHandler \<lparr>Method = ''GET'', Host = ''bower.herokuapp.com'',
        URL_Path = ''/stats'', URL_RawQuery = []\<rparr> =
      Inr ([Sleep 10000000000],
           Some \<lparr>StatusCode = 308,
                 Header = [''Content-Type'' \<mapsto> [''application/json''],
                           ''Location'' \<mapsto> [''https://registry.bower.io/stats'']],
                 Body = []\<rparr>)"
  using redirect_after_ten_seconds [of "\<lparr>Method = ''GET'', Host = ''bower.herokuapp.com'',
        URL_Path = ''/stats'', URL_RawQuery = ''a=1&b=2''\<rparr>" exampleEnv]
    redirect_after_ten_seconds [of "\<lparr>Method = ''GET'', Host = ''bower.herokuapp.com'',
        URL_Path = ''/stats'', URL_RawQuery = []\<rparr>" exampleEnv]
  by (simp add: HasPrefix_def Second_def)

section \<open>The resolver\<close>

text \<open>
  C5. When the last piece of the path is a name x for which the store returns the row
  (x, u), and the encoder returns data for the object with the keys name and url and
  the values x and u, the lookup handler answers with status 200, the body data and the
  header Cache-Control: public, max-age=604800 (next to Content-Type: application/json).
\<close>

theorem getPackage_found:
  assumes "last (Split (URL_Path r) CHR ''/'') = x"
    and "pool_QueryRow env ''getPackage'' x = Inr (x, u)"
    and "json_Marshal env [(''name'', x), (''url'', u)] = Inr data"
  shows "getPackage env r =
    Inr ([QueryRow ''getPackage'' x],
         Some \<lparr>StatusCode = 200,
               Header = [''Content-Type'' \<mapsto> [''application/json''],
                         ''Cache-Control'' \<mapsto> [''public, max-age=604800'']],
               Body = data\<rparr>)"
  using assms by (simp add: getPackage_eq)

theorem getPackage_found_witness:
  \<open>getPackage exampleEnv
      \<lparr>Method = ''GET'', Host = ''registry.bower.io'', URL_Path = ''/packages/jquery'',
       URL_RawQuery = []\<rparr> =
    Inr ([QueryRow ''getPackage'' ''jquery''],
         Some \<lparr>StatusCode = 200,
               Header = [''Content-Type'' \<mapsto> [''application/json''],
                         ''Cache-Control'' \<mapsto> [''public, max-age=604800'']],
               Body = ''{"name":"jquery","url":"git://github.com/jquery/jquery.git"}''\<rparr>)\<close>
  using getPackage_found [of "\<lparr>Method = ''GET'', Host = ''registry.bower.io'',
      URL_Path = ''/packages/jquery'', URL_RawQuery = []\<rparr>" "''jquery''" exampleEnv
      "''git://github.com/jquery/jquery.git''"]
  by (simp add: Split_example_jquery exampleEnv_def plainMarshal_def quoted_def)

text \<open>
  C6. The error renderings of the lookup handler: no row gives status 404 with the body
  "Package not found"; any other store error gives status 500 with the body "Internal
  server error", whatever its message; a failure of the encoder gives the same 500.
  Every response that is not the 200 carries one of these two fixed bodies, so nothing
  of an error reaches the client.
\<close>

theorem getPackage_error_rendering:
  "(pool_QueryRow env ''getPackage'' (last (Split (URL_Path r) CHR ''/'')) = Inl ErrNoRows \<longrightarrow>
      getPackage env r =
        Inr ([QueryRow ''getPackage'' (last (Split (URL_Path r) CHR ''/''))],
             Some \<lparr>StatusCode = 404, Header = [''Content-Type'' \<mapsto> [''text/html'']],
                   Body = ''Package not found''\<rparr>))
   \<and> (pool_QueryRow env ''getPackage'' (last (Split (URL_Path r) CHR ''/'')) = Inl (PgxError msg) \<longrightarrow>
      getPackage env r =
        Inr ([QueryRow ''getPackage'' (last (Split (URL_Path r) CHR ''/''))],
             Some \<lparr>StatusCode = 500, Header = [''Content-Type'' \<mapsto> [''text/html'']],
                   Body = ''Internal server error''\<rparr>))
   \<and> (pool_QueryRow env ''getPackage'' (last (Split (URL_Path r) CHR ''/'')) = Inr (name, url)
        \<and> json_Marshal env [(''name'', name), (''url'', url)] = Inl e \<longrightarrow>
      getPackage env r =
        Inr ([QueryRow ''getPackage'' (last (Split (URL_Path r) CHR ''/''))],
             Some \<lparr>StatusCode = 500, Header = [''Content-Type'' \<mapsto> [''text/html'']],
                   Body = ''Internal server error''\<rparr>))
   \<and> (getPackage env r = Inr (evs, Some resp) \<and> StatusCode resp \<noteq> 200 \<longrightarrow>
        (StatusCode resp = 404 \<and> Body resp = ''Package not found'')
        \<or> (StatusCode resp = 500 \<and> Body resp = ''Internal server error''))"
proof (intro conjI impI)
  assume "pool_QueryRow env ''getPackage'' (last (Split (URL_Path r) CHR ''/'')) = Inl ErrNoRows"
  then show "getPackage env r =
        Inr ([QueryRow ''getPackage'' (last (Split (URL_Path r) CHR ''/''))],
             Some \<lparr>StatusCode = 404, Header = [''Content-Type'' \<mapsto> [''text/html'']],
                   Body = ''Package not found''\<rparr>)"
    by (simp add: getPackage_eq)
next
  assume "pool_QueryRow env ''getPackage'' (last (Split (URL_Path r) CHR ''/'')) = Inl (PgxError msg)"
  then show "getPackage env r =
        Inr ([QueryRow ''getPackage'' (last (Split (URL_Path r) CHR ''/''))],
             Some \<lparr>StatusCode = 500, Header = [''Content-Type'' \<mapsto> [''text/html'']],
                   Body = ''Internal server error''\<rparr>)"
    by (simp add: getPackage_eq)
next
  assume "pool_QueryRow env ''getPackage'' (last (Split (URL_Path r) CHR ''/'')) = Inr (name, url)
        \<and> json_Marshal env [(''name'', name), (''url'', url)] = Inl e"
  then show "getPackage env r =
        Inr ([QueryRow ''getPackage'' (last (Split (URL_Path r) CHR ''/''))],
             Some \<lparr>StatusCode = 500, Header = [''Content-Type'' \<mapsto> [''text/html'']],
                   Body = ''Internal server error''\<rparr>)"
    by (simp add: getPackage_eq)
next
  assume "getPackage env r = Inr (evs, Some resp) \<and> StatusCode resp \<noteq> 200"
  then show "(StatusCode resp = 404 \<and> Body resp = ''Package not found'')
        \<or> (StatusCode resp = 500 \<and> Body resp = ''Internal server error'')"
    by (auto simp: getPackage_eq Let_def split: sum.splits prod.splits if_splits)
qed

theorem getPackage_error_rendering_witness:
  "getPackage exampleEnv
      \<lparr>Method = ''GET'', Host = ''registry.bower.io'', URL_Path = ''/packages/missing'',
       URL_RawQuery = []\<rparr> =
     Inr ([QueryRow ''getPackage'' ''missing''],
          Some \<lparr>StatusCode = 404, Header = [''Content-Type'' \<mapsto> [''text/html'']],
                Body = ''Package not found''\<rparr>)
   \<and> getPackage (exampleEnv\<lparr>pool_QueryRow := \<lambda>stmt arg. Inl (PgxError ''connection refused'')\<rparr>)
      \<lparr>Method = ''GET'', Host = ''registry.bower.io'', URL_Path = ''/packages/jquery'',
       URL_RawQuery = []\<rparr> =
     Inr ([QueryRow ''getPackage'' ''jquery''],
          Some \<lparr>StatusCode = 500, Header = [''Content-Type'' \<mapsto> [''text/html'']],
                Body = ''Internal server error''\<rparr>)
   \<and> getPackage (exampleEnv\<lparr>json_Marshal := \<lambda>kvs. Inl (MarshalError ''unsupported value'')\<rparr>)
      \<lparr>Method = ''GET'', Host = ''registry.bower.io'', URL_Path = ''/packages/jquery'',
       URL_RawQuery = []\<rparr> =
     Inr ([QueryRow ''getPackage'' ''jquery''],
          Some \<lparr>StatusCode = 500, Header = [''Content-Type'' \<mapsto> [''text/html'']],
                Body = ''Internal server error''\<rparr>)"
  using getPackage_error_rendering [of exampleEnv
      "\<lparr>Method = ''GET'', Host = ''registry.bower.io'', URL_Path = ''/packages/missing'',
        URL_RawQuery = []\<rparr>"]
    getPackage_error_rendering [of
      "exampleEnv\<lparr>pool_QueryRow := \<lambda>stmt arg. Inl (PgxError ''connection refused'')\<rparr>"
      "\<lparr>Method = ''GET'', Host = ''registry.bower.io'', URL_Path = ''/packages/jquery'',
        URL_RawQuery = []\<rparr>" "''connection refused''"]
    getPackage_error_rendering [of
      "exampleEnv\<lparr>json_Marshal := \<lambda>kvs. Inl (MarshalError ''unsupported value'')\<rparr>"
      "\<lparr>Method = ''GET'', Host = ''registry.bower.io'', URL_Path = ''/packages/jquery'',
        URL_RawQuery = []\<rparr>" _ "''jquery''" "''git://github.com/jquery/jquery.git''"
      "MarshalError ''unsupported value''"]
  by (simp add: Split_example_jquery Split_example_missing exampleEnv_def)

text \<open>
  C7. The list handler reads the cache key "packages" and nothing else. On a hit it
  answers with status 200, the cached value as the body, and the header Cache-Control:
  public, max-age=604800. On a miss or any other error of the cache client it gives no
  response; a request that reached the list rule is then delegated, and no 500 is made.
\<close>

theorem listPackages_cache:
  "(cn_Get env ''packages'' = Inr val \<longrightarrow>
      listPackages env r =
        Inr ([CacheGet ''packages''],
             Some \<lparr>StatusCode = 200,
                   Header = [''Content-Type'' \<mapsto> [''application/json''],
                             ''Cache-Control'' \<mapsto> [''public, max-age=604800'']],
                   Body = val\<rparr>))
   \<and> (cn_Get env ''packages'' = Inl err \<longrightarrow>
      listPackages env r = Inr ([CacheGet ''packages''], None)
      \<and> (pathIs ''/packages'' r
           \<and> (Host r = ''registry.bower.io'' \<or> Host r = ''components.bower.io'') \<longrightarrow>
         serve env r = Inr ([CacheGet ''packages''], None)))"
proof (intro conjI impI)
  assume "cn_Get env ''packages'' = Inr val"
  then show "listPackages env r =
        Inr ([CacheGet ''packages''],
             Some \<lparr>StatusCode = 200,
                   Header = [''Content-Type'' \<mapsto> [''application/json''],
                             ''Cache-Control'' \<mapsto> [''public, max-age=604800'']],
                   Body = val\<rparr>)"
    by (simp add: listPackages_def NewResponse_record Header_Add_def status_defs)
next
  assume miss: "cn_Get env ''packages'' = Inl err"
  then show declined: "listPackages env r = Inr ([CacheGet ''packages''], None)"
    by (simp add: listPackages_def)
  assume "pathIs ''/packages'' r
           \<and> (Host r = ''registry.bower.io'' \<or> Host r = ''components.bower.io'')"
  then have "pathIs ''/packages'' r" and "redirectHandler r = Inr ([], None)"
    by (simp_all add: redirectHandler_migrated)
  then show "serve env r = Inr ([CacheGet ''packages''], None)"
    using declined by (simp add: serve_redirect_declines)
qed

theorem listPackages_cache_witness:
  \<open>listPackages exampleEnv
      \<lparr>Method = ''GET'', Host = ''registry.bower.io'', URL_Path = ''/packages'',
       URL_RawQuery = []\<rparr> =
     Inr ([CacheGet ''packages''],
          Some \<lparr>StatusCode = 200,
                Header = [''Content-Type'' \<mapsto> [''application/json''],
                          ''Cache-Control'' \<mapsto> [''public, max-age=604800'']],
                Body = ''[{"name":"jquery","url":"git://github.com/jquery/jquery.git"}]''\<rparr>)
   \<and> listPackages (exampleEnv\<lparr>cn_Get := \<lambda>key. Inl ErrNotFound\<rparr>)
      \<lparr>Method = ''GET'', Host = ''registry.bower.io'', URL_Path = ''/packages'',
       URL_RawQuery = []\<rparr> = Inr ([CacheGet ''packages''], None)
   \<and> serve (exampleEnv\<lparr>cn_Get := \<lambda>key. Inl ErrNotFound\<rparr>)
      \<lparr>Method = ''GET'', Host = ''registry.bower.io'', URL_Path = ''/packages'',
       URL_RawQuery = []\<rparr> = Inr ([CacheGet ''packages''], None)
   \<and> serve (exampleEnv\<lparr>cn_Get := \<lambda>key. Inl (McError ''connection reset'')\<rparr>)
      \<lparr>Method = ''GET'', Host = ''components.bower.io'', URL_Path = ''/packages'',
       URL_RawQuery = []\<rparr> = Inr ([CacheGet ''packages''], None)\<close>
  using listPackages_cache [of exampleEnv
      \<open>''[{"name":"jquery","url":"git://github.com/jquery/jquery.git"}]''\<close>
      "\<lparr>Method = ''GET'', Host = ''registry.bower.io'', URL_Path = ''/packages'',
        URL_RawQuery = []\<rparr>"]
    listPackages_cache [of "exampleEnv\<lparr>cn_Get := \<lambda>key. Inl ErrNotFound\<rparr>" _
      "\<lparr>Method = ''GET'', Host = ''registry.bower.io'', URL_Path = ''/packages'',
        URL_RawQuery = []\<rparr>" ErrNotFound]
    listPackages_cache [of "exampleEnv\<lparr>cn_Get := \<lambda>key. Inl (McError ''connection reset'')\<rparr>" _
      "\<lparr>Method = ''GET'', Host = ''components.bower.io'', URL_Path = ''/packages'',
        URL_RawQuery = []\<rparr>" "McError ''connection reset''"]
  by (simp add: exampleEnv_def pathIs_def MethodGet_def)

text \<open>
  C8. The lookup handler queries the store for the last piece of the path split at "/":
  the bytes that follow the last "/" as they are, for every path. The handler is what
  the dispatch runs for a request that matches the lookup rule and that the redirect
  handler declined. The path /packages/a/b/c gives the name c.
\<close>

theorem getPackage_queries_last_segment:
  "(\<exists>resp. getPackage env r =
      Inr ([QueryRow ''getPackage'' (last (Split (URL_Path r) CHR ''/''))], Some resp))
   \<and> last (Split (URL_Path r) CHR ''/'') =
       rev (takeWhile (\<lambda>c. c \<noteq> CHR ''/'') (rev (URL_Path r)))
   \<and> (urlHasPrefix ''/packages/'' r \<and> redirectHandler r = Inr ([], None) \<longrightarrow>
        serve env r = getPackage env r)
   \<and> Split ''/packages/a/b/c'' CHR ''/'' = [[], ''packages'', ''a'', ''b'', ''c'']
   \<and> last (Split ''/packages/a/b/c'' CHR ''/'') = ''c''"
proof (intro conjI impI)
  show "\<exists>resp. getPackage env r =
      Inr ([QueryRow ''getPackage'' (last (Split (URL_Path r) CHR ''/''))], Some resp)"
    by (rule getPackage_responds)
  show "last (Split (URL_Path r) CHR ''/'') =
       rev (takeWhile (\<lambda>c. c \<noteq> CHR ''/'') (rev (URL_Path r)))"
    by (rule Split_last)
  show abc: "Split ''/packages/a/b/c'' CHR ''/'' = [[], ''packages'', ''a'', ''b'', ''c'']"
    by (simp add: Split.simps)
  show "last (Split ''/packages/a/b/c'' CHR ''/'') = ''c''"
    by (simp add: abc)
next
  assume "urlHasPrefix ''/packages/'' r \<and> redirectHandler r = Inr ([], None)"
  then have "urlHasPrefix ''/packages/'' r" and "redirectHandler r = Inr ([], None)"
    by simp_all
  moreover from this have "\<not> pathIs ''/packages'' r"
    using pathIs_not_urlHasPrefix by blast
  ultimately show "serve env r = getPackage env r"
    by (simp add: serve_redirect_declines)
qed

theorem getPackage_queries_last_segment_witness:
  "urlHasPrefix ''/packages/''
      \<lparr>Method = ''GET'', Host = ''registry.bower.io'', URL_Path = ''/packages/a/b/c'',
       URL_RawQuery = []\<rparr>
   \<and> serve exampleEnv
      \<lparr>Method = ''GET'', Host = ''registry.bower.io'', URL_Path = ''/packages/a/b/c'',
       URL_RawQuery = []\<rparr> =
     Inr ([QueryRow ''getPackage'' ''c''],
          Some \<lparr>StatusCode = 404, Header = [''Content-Type'' \<mapsto> [''text/html'']],
                Body = ''Package not found''\<rparr>)"
proof -
  let ?r = "\<lparr>Method = ''GET'', Host = ''registry.bower.io'', URL_Path = ''/packages/a/b/c'',
       URL_RawQuery = []\<rparr>"
  note t = getPackage_queries_last_segment [of exampleEnv ?r]
  have p: "urlHasPrefix ''/packages/'' ?r"
    by (simp add: urlHasPrefix_def HasPrefix_def MethodGet_def)
  have d: "redirectHandler ?r = Inr ([], None)"
    by (simp add: redirectHandler_def)
  have "serve exampleEnv ?r = getPackage exampleEnv ?r"
    using t p d by blast
  moreover have "last (Split (URL_Path ?r) CHR ''/'') = ''c''"
    using t by simp
  ultimately show ?thesis
    using p by (simp add: getPackage_eq exampleEnv_def)
qed

text \<open>
  C9, as stated, fails on a search path: /packages/search/ starts with /packages/ and
  ends with "/", yet the lookup rule does not match it (the rule excludes the search
  prefix), and on a migrated host the request is delegated without any query.
\<close>

theorem lookup_trailing_slash_counterexample:
  "Method \<lparr>Method = ''GET'', Host = ''registry.bower.io'', URL_Path = ''/packages/search/'',
       URL_RawQuery = []\<rparr> = ''GET''
   \<and> HasPrefix ''/packages/search/'' ''/packages/''
   \<and> last ''/packages/search/'' = CHR ''/''
   \<and> \<not> urlHasPrefix ''/packages/''
      \<lparr>Method = ''GET'', Host = ''registry.bower.io'', URL_Path = ''/packages/search/'',
       URL_RawQuery = []\<rparr>
   \<and> serve exampleEnv
      \<lparr>Method = ''GET'', Host = ''registry.bower.io'', URL_Path = ''/packages/search/'',
       URL_RawQuery = []\<rparr> = Inr ([], None)"
  by (simp add: urlHasPrefix_def HasPrefix_def pathIs_def MethodGet_def
      serve_redirect_declines redirectHandler_migrated)

text \<open>
  C9, amended. For a GET request on a migrated host whose path starts with /packages/,
  does not start with /packages/search/ and ends with "/", the lookup rule matches, the
  name is the empty string, and the dispatch runs the lookup handler, which queries the
  store for the empty name before anything else.
\<close>

theorem lookup_trailing_slash:
  assumes "Method r = ''GET''"
    and "Host r = ''registry.bower.io'' \<or> Host r = ''components.bower.io''"
    and "HasPrefix (URL_Path r) ''/packages/''"
    and "\<not> HasPrefix (URL_Path r) ''/packages/search/''"
    and "last (URL_Path r) = CHR ''/''"
  shows "urlHasPrefix ''/packages/'' r
    \<and> last (Split (URL_Path r) CHR ''/'') = []
    \<and> serve env r = getPackage env r
    \<and> (\<exists>resp. getPackage env r = Inr ([QueryRow ''getPackage'' []], Some resp))"
proof -
  have match: "urlHasPrefix ''/packages/'' r"
    using assms(1,3,4) by (simp add: urlHasPrefix_def MethodGet_def)
  have "URL_Path r \<noteq> []"
    using assms(3) by (auto simp: HasPrefix_def)
  then have name: "last (Split (URL_Path r) CHR ''/'') = []"
    using assms(5) by (rule Split_last_trailing_sep)
  have "\<not> pathIs ''/packages'' r"
    using match pathIs_not_urlHasPrefix by blast
  then have "serve env r = getPackage env r"
    using match redirectHandler_migrated [OF assms(2)] by (simp add: serve_redirect_declines)
  then show ?thesis
    using match name getPackage_responds [of env r] by simp
qed

theorem lookup_trailing_slash_witness:
  "HasPrefix ''/packages/foo/'' ''/packages/''
   \<and> \<not> HasPrefix ''/packages/foo/'' ''/packages/search/''
   \<and> last ''/packages/foo/'' = CHR ''/''
   \<and> urlHasPrefix ''/packages/''
      \<lparr>Method = ''GET'', Host = ''registry.bower.io'', URL_Path = ''/packages/foo/'',
       URL_RawQuery = []\<rparr>
   \<and> serve exampleEnv
      \<lparr>Method = ''GET'', Host = ''registry.bower.io'', URL_Path = ''/packages/foo/'',
       URL_RawQuery = []\<rparr> =
     Inr ([QueryRow ''getPackage'' []],
          Some \<lparr>StatusCode = 404, Header = [''Content-Type'' \<mapsto> [''text/html'']],
                Body = ''Package not found''\<rparr>)"
  using lookup_trailing_slash [of "\<lparr>Method = ''GET'', Host = ''registry.bower.io'',
      URL_Path = ''/packages/foo/'', URL_RawQuery = []\<rparr>" exampleEnv]
  by (simp add: HasPrefix_def getPackage_eq Split_example_foo exampleEnv_def)

text \<open>
  C10. The path /packages/search, without the slash at its end, is not a search path.
  On a migrated host a GET request for it matches the lookup rule and the store is
  queried for the name "search"; on any other host it gets the 308 after the sleep of
  ten seconds, not the deprecation notice.
\<close>

theorem packages_search_without_slash:
  assumes "Method r = ''GET''" and "URL_Path r = ''/packages/search''"
  shows "\<not> HasPrefix (URL_Path r) ''/packages/search/''
    \<and> (Host r = ''registry.bower.io'' \<or> Host r = ''components.bower.io'' \<longrightarrow>
         urlHasPrefix ''/packages/'' r
         \<and> serve env r = getPackage env r
         \<and> (\<exists>resp. getPackage env r = Inr ([QueryRow ''getPackage'' ''search''], Some resp)))
    \<and> (Host r \<noteq> ''registry.bower.io'' \<and> Host r \<noteq> ''components.bower.io'' \<longrightarrow>
         serve env r =
           Inr ([Sleep (10 * Second)],
                Some \<lparr>StatusCode = 308,
                      Header = [''Content-Type'' \<mapsto> [''application/json''],
                                ''Location'' \<mapsto> [''https://registry.bower.io/packages/search'' @
                                   (if URL_RawQuery r = [] then [] else ''?'' @ URL_RawQuery r)]],
                      Body = []\<rparr>))"
proof (intro conjI impI)
  show ns: "\<not> HasPrefix (URL_Path r) ''/packages/search/''"
    using assms(2) by (simp add: HasPrefix_def)
  have seg: "last (Split (URL_Path r) CHR ''/'') = ''search''"
    using assms(2) by (simp add: Split.simps)
  {
    assume mig: "Host r = ''registry.bower.io'' \<or> Host r = ''components.bower.io''"
    show match: "urlHasPrefix ''/packages/'' r"
      using assms by (simp add: urlHasPrefix_def HasPrefix_def MethodGet_def)
    then have "\<not> pathIs ''/packages'' r"
      using pathIs_not_urlHasPrefix by blast
    then show "serve env r = getPackage env r"
      using match redirectHandler_migrated [OF mig] by (simp add: serve_redirect_declines)
    show "\<exists>resp. getPackage env r = Inr ([QueryRow ''getPackage'' ''search''], Some resp)"
      using getPackage_responds [of env r] seg by simp
  }
  {
    assume "Host r \<noteq> ''registry.bower.io'' \<and> Host r \<noteq> ''components.bower.io''"
    then have h: "Host r \<noteq> ''registry.bower.io''" "Host r \<noteq> ''components.bower.io''"
      by simp_all
    have "serve env r = redirectHandler r"
      using redirectHandler_308 [OF assms(1) h ns] serve_redirect_answers by simp
    then show "serve env r =
           Inr ([Sleep (10 * Second)],
                Some \<lparr>StatusCode = 308,
                      Header = [''Content-Type'' \<mapsto> [''application/json''],
                                ''Location'' \<mapsto> [''https://registry.bower.io/packages/search'' @
                                   (if URL_RawQuery r = [] then [] else ''?'' @ URL_RawQuery r)]],
                      Body = []\<rparr>)"
      using redirectHandler_308 [OF assms(1) h ns] assms(2) by simp
  }
qed

theorem packages_search_without_slash_witness:
  "serve exampleEnv
      \<lparr>Method = ''GET'', Host = ''registry.bower.io'', URL_Path = ''/packages/search'',
       URL_RawQuery = []\<rparr> =
     Inr ([QueryRow ''getPackage'' ''search''],
          Some \<lparr>StatusCode = 404, Header = [''Content-Type'' \<mapsto> [''text/html'']],
                Body = ''Package not found''\<rparr>)
   \<and> serve exampleEnv
      \<lparr>Method = ''GET'', Host = ''bower.herokuapp.com'', URL_Path = ''/packages/search'',
       URL_RawQuery = []\<rparr> =
     Inr ([Sleep 10000000000],
          Some \<lparr>StatusCode = 308,
                Header = [''Content-Type'' \<mapsto> [''application/json''],
                          ''Location'' \<mapsto> [''https://registry.bower.io/packages/search'']],
                Body = []\<rparr>)"
  using packages_search_without_slash [of "\<lparr>Method = ''GET'', Host = ''registry.bower.io'',
      URL_Path = ''/packages/search'', URL_RawQuery = []\<rparr>" exampleEnv]
    packages_search_without_slash [of "\<lparr>Method = ''GET'', Host = ''bower.herokuapp.com'',
      URL_Path = ''/packages/search'', URL_RawQuery = []\<rparr>" exampleEnv]
  by (simp add: getPackage_eq Split.simps exampleEnv_def Second_def)

end
